theory Spec2Isabelle
  imports Complex_Main "HOL-Library.List_Lexorder"
begin

section \<open>Text: the string operations the analyzer calls\<close>

text \<open>
  Text is modelled as ASCII: a \<^typ>\<open>char\<close> is a code point below 128, and a code point
  outside ASCII counts as neither white space, nor a letter, nor a word character. The
  classes are those of Python's \<^verbatim>\<open>str\<close> on ASCII: \<^verbatim>\<open>str.isspace\<close> holds for the codes
  9 to 13 and 28 to 32, and the regular expression class \<^verbatim>\<open>\w\<close> is letters, digits and
  the underscore.
\<close>

definition is_space :: "char \<Rightarrow> bool" where
  "is_space c = (let n = (of_char c :: nat) in (9 \<le> n \<and> n \<le> 13) \<or> (28 \<le> n \<and> n \<le> 32))"

definition is_upper :: "char \<Rightarrow> bool" where
  "is_upper c = (let n = (of_char c :: nat) in 65 \<le> n \<and> n \<le> 90)"

definition is_alpha :: "char \<Rightarrow> bool" where
  "is_alpha c = (let n = (of_char c :: nat) in (65 \<le> n \<and> n \<le> 90) \<or> (97 \<le> n \<and> n \<le> 122))"

definition is_word :: "char \<Rightarrow> bool" where
  "is_word c = (let n = (of_char c :: nat) in is_alpha c \<or> (48 \<le> n \<and> n \<le> 57) \<or> n = 95)"

text \<open>
  \<^verbatim>\<open>str.lower\<close>: an upper-case letter moves 32 code points up, which for the codes 65 to
  90 is setting bit 5 (lemma \<open>lower_char_code\<close> below); every other character stays.
\<close>

definition lower_char :: "char \<Rightarrow> char" where
  "lower_char c =
     (if is_upper c
      then Char (digit0 c) (digit1 c) (digit2 c) (digit3 c) (digit4 c) True (digit6 c) (digit7 c)
      else c)"

definition lower :: "string \<Rightarrow> string" where
  "lower s = map lower_char s"

text \<open>\<^verbatim>\<open>str.strip()\<close>: white space is removed at both ends.\<close>

definition strip :: "string \<Rightarrow> string" where
  "strip s = rev (dropWhile is_space (rev (dropWhile is_space s)))"

text \<open>
  \<^verbatim>\<open>str.split()\<close> without a separator: the maximal runs of characters that are not white
  space, in order; \<open>cur\<close> holds the run being read, reversed.
\<close>

fun split_from :: "string \<Rightarrow> string \<Rightarrow> string list" where
  "split_from cur [] = (if cur = [] then [] else [rev cur])"
| "split_from cur (c # cs) =
     (if is_space c
      then (if cur = [] then split_from [] cs else rev cur # split_from [] cs)
      else split_from (c # cur) cs)"

definition split :: "string \<Rightarrow> string list" where
  "split s = split_from [] s"

text \<open>\<^verbatim>\<open>' '.join(xs)\<close>.\<close>

fun join :: "string list \<Rightarrow> string" where
  "join [] = []"
| "join [x] = x"
| "join (x # y # ys) = x @ CHR '' '' # join (y # ys)"

text \<open>
  \<^verbatim>\<open>re.findall(r'\b[a-zA-Z]{3,}\b', text)\<close>, scanning from the left; \<open>p\<close> says whether the
  character before the current position is a word character. A match starts where
  \<^verbatim>\<open>\b\<close> holds in front of a letter (\<open>p\<close> is false), takes the whole run of letters (the
  quantifier is greedy), and needs \<^verbatim>\<open>\b\<close> behind it: the run ends the text or is
  followed by a character that is not a word character. Backtracking to a shorter
  run never helps, since inside a run of letters there is no word boundary. After a
  match the scan goes on behind it, otherwise one character further.
\<close>

function findall :: "bool \<Rightarrow> string \<Rightarrow> string list" where
  "findall p [] = []"
| "findall p (c # cs) =
     (let run = takeWhile is_alpha (c # cs); rest = dropWhile is_alpha (c # cs)
      in if \<not> p \<and> 3 \<le> length run \<and> (rest = [] \<or> \<not> is_word (hd rest))
         then run # findall True rest
         else findall (is_word c) cs)"
  by pat_completeness auto
termination
proof (relation "measure (\<lambda>(p, s). length s)")
  show "wf (measure (\<lambda>(p, s). length s))" by simp
next
  fix p :: bool and c :: char and cs x xa
  assume x: "x = takeWhile is_alpha (c # cs)" and xa: "xa = dropWhile is_alpha (c # cs)"
    and c: "\<not> p \<and> 3 \<le> length x \<and> (xa = [] \<or> \<not> is_word (hd xa))"
  have "length x + length xa = length (c # cs)"
    unfolding x xa by (metis length_append takeWhile_dropWhile_id)
  with c show "((True, xa), p, c # cs) \<in> measure (\<lambda>(p, s). length s)" by simp
next
  fix p :: bool and c :: char and cs :: string
  show "((is_word c, cs), p, c # cs) \<in> measure (\<lambda>(p, s). length s)" by simp
qed

text \<open>\<^verbatim>\<open>str(n)\<close> for an integer: decimal digits, with a minus sign when negative.\<close>

fun digits :: "nat \<Rightarrow> string" where
  "digits n =
     (if n < 10 then [''0123456789'' ! n]
      else digits (n div 10) @ [''0123456789'' ! (n mod 10)])"

declare digits.simps [simp del]

definition str_int :: "int \<Rightarrow> string" where
  "str_int i = (if i < 0 then CHR ''-'' # digits (nat (- i)) else digits (nat i))"

definition zero_pad :: "nat \<Rightarrow> string \<Rightarrow> string" where
  "zero_pad w s = replicate (w - length s) CHR ''0'' @ s"

section \<open>Cells, series and data frames\<close>

text \<open>
  A pandas Timestamp, to the second and without a time zone; \<^verbatim>\<open>str\<close> of it is
  \<^verbatim>\<open>YYYY-MM-DD HH:MM:SS\<close>.
\<close>

record timestamp =
  year :: int
  month :: int
  day :: int
  hour :: int
  minute :: int
  second :: int

definition str_timestamp :: "timestamp \<Rightarrow> string" where
  "str_timestamp t =
     zero_pad 4 (str_int (year t)) @ ''-'' @ zero_pad 2 (str_int (month t)) @ ''-'' @
     zero_pad 2 (str_int (day t)) @ '' '' @ zero_pad 2 (str_int (hour t)) @ '':'' @
     zero_pad 2 (str_int (minute t)) @ '':'' @ zero_pad 2 (str_int (second t))"

text \<open>
  One cell of a table. \<open>NA\<close> is pandas' missing value (\<^verbatim>\<open>NaN\<close>, \<^verbatim>\<open>NaT\<close>, \<^verbatim>\<open>None\<close>).
  Numbers are integers: the program produces only whole numbers (years, months, word
  counts), which pandas may store as floats.
\<close>

datatype cell = NA | Text string | Number int | Stamp timestamp

type_synonym series = "cell list"

text \<open>
  A DataFrame: the length of its index and its columns in order, by name. In a
  well-formed frame every column has one cell per row.
\<close>

record dataframe =
  nrows :: nat
  columns :: "(string \<times> series) list"

definition wf_frame :: "dataframe \<Rightarrow> bool" where
  "wf_frame d = list_all (\<lambda>kc. length (snd kc) = nrows d) (columns d)"

datatype error =
    KeyError string
  | AttributeError
  | TypeError
  | ValueError
  | IndexError
  | FileNotFoundError
  | PermissionError
  | EmptyDataError
  | ParserError
  | UnicodeDecodeError

text \<open>\<^verbatim>\<open>df[k]\<close>: the column named \<open>k\<close>, KeyError when there is none.\<close>

definition getitem :: "dataframe \<Rightarrow> string \<Rightarrow> error + series" where
  "getitem d k = (case map_of (columns d) k of None \<Rightarrow> Inl (KeyError k) | Some col \<Rightarrow> Inr col)"

text \<open>\<^verbatim>\<open>df[k] = col\<close>: an existing column is replaced in place, a new one is put last.\<close>

fun put_column :: "string \<Rightarrow> series \<Rightarrow> (string \<times> series) list \<Rightarrow> (string \<times> series) list" where
  "put_column k col [] = [(k, col)]"
| "put_column k col ((k', col') # cs) =
     (if k' = k then (k, col) # cs else (k', col') # put_column k col cs)"

definition setitem :: "dataframe \<Rightarrow> string \<Rightarrow> series \<Rightarrow> dataframe" where
  "setitem d k col = d\<lparr>columns := put_column k col (columns d)\<rparr>"

text \<open>\<^verbatim>\<open>str(x)\<close> of a cell that is not missing.\<close>

fun py_str :: "cell \<Rightarrow> string" where
  "py_str NA = ''nan''"
| "py_str (Text s) = s"
| "py_str (Number i) = str_int i"
| "py_str (Stamp t) = str_timestamp t"

definition notna :: "series \<Rightarrow> bool list" where
  "notna col = map (\<lambda>c. c \<noteq> NA) col"

definition dropna :: "series \<Rightarrow> series" where
  "dropna col = filter (\<lambda>c. c \<noteq> NA) col"

text \<open>
  \<^verbatim>\<open>pd.to_datetime(col, errors='coerce')\<close>. Which values stand for a date is the
  library's business: the parser \<open>P\<close> is a parameter, \<open>None\<close> where the value does not
  parse. A missing value gives \<open>NaT\<close>, a timestamp stays, and with \<^verbatim>\<open>errors='coerce'\<close>
  a value that does not parse gives \<open>NaT\<close> instead of an exception.
\<close>

fun coerce_datetime :: "(cell \<Rightarrow> timestamp option) \<Rightarrow> cell \<Rightarrow> cell" where
  "coerce_datetime P NA = NA"
| "coerce_datetime P (Stamp t) = Stamp t"
| "coerce_datetime P c = (case P c of None \<Rightarrow> NA | Some t \<Rightarrow> Stamp t)"

definition to_datetime :: "(cell \<Rightarrow> timestamp option) \<Rightarrow> series \<Rightarrow> series" where
  "to_datetime P col = map (coerce_datetime P) col"

text \<open>
  A value fails to parse as a date when it is missing or the parser rejects it.
\<close>

fun fails_to_parse :: "(cell \<Rightarrow> timestamp option) \<Rightarrow> cell \<Rightarrow> bool" where
  "fails_to_parse P NA = True"
| "fails_to_parse P (Stamp t) = False"
| "fails_to_parse P c = (P c = None)"

text \<open>
  The \<^verbatim>\<open>.dt\<close> accessor exists on a datetime column only (cells that are timestamps or
  \<open>NaT\<close>), AttributeError otherwise; \<^verbatim>\<open>.dt.year\<close> and \<^verbatim>\<open>.dt.month\<close> read the field
  and are missing where the timestamp is.
\<close>

fun is_datetime :: "cell \<Rightarrow> bool" where
  "is_datetime NA = True"
| "is_datetime (Stamp t) = True"
| "is_datetime c = False"

fun stamp_field :: "(timestamp \<Rightarrow> int) \<Rightarrow> cell \<Rightarrow> cell" where
  "stamp_field f (Stamp t) = Number (f t)"
| "stamp_field f c = NA"

definition dt :: "(timestamp \<Rightarrow> int) \<Rightarrow> series \<Rightarrow> error + series" where
  "dt f col = (if list_all is_datetime col then Inr (map (stamp_field f) col) else Inl AttributeError)"

text \<open>
  The \<^verbatim>\<open>.str\<close> accessor exists on a column of strings only: pandas raises
  AttributeError (\<^verbatim>\<open>Can only use .str accessor with string values\<close>) on a numeric or
  datetime column, and \<^verbatim>\<open>read_csv\<close> makes a column without a single string numeric,
  unless the table has no rows at all. A method of the accessor maps the strings and
  gives a missing value for every other cell.
\<close>

fun is_text :: "cell \<Rightarrow> bool" where
  "is_text (Text s) = True"
| "is_text c = False"

definition has_str :: "series \<Rightarrow> bool" where
  "has_str col = (col = [] \<or> list_ex is_text col)"

fun str_cell :: "(string \<Rightarrow> string) \<Rightarrow> cell \<Rightarrow> cell" where
  "str_cell f (Text s) = Text (f s)"
| "str_cell f c = NA"

definition str_method :: "(string \<Rightarrow> string) \<Rightarrow> series \<Rightarrow> error + series" where
  "str_method f col = (if has_str col then Inr (map (str_cell f) col) else Inl AttributeError)"

text \<open>
  The function applied to the abstracts,
  \<^verbatim>\<open>lambda x: len(str(x).split()) if pd.notnull(x) else 0\<close>.
\<close>

definition abstract_word_count :: "cell \<Rightarrow> cell" where
  "abstract_word_count x = (if x \<noteq> NA then Number (int (length (split (py_str x)))) else Number 0)"

subsection \<open>Counting\<close>

text \<open>
  \<^verbatim>\<open>Counter(xs)\<close>: the elements are counted in one pass, and the dictionary keeps its
  keys in the order in which they were first met.
\<close>

fun bump :: "'a \<Rightarrow> ('a \<times> nat) list \<Rightarrow> ('a \<times> nat) list" where
  "bump x [] = [(x, 1)]"
| "bump x ((k, n) # kvs) = (if k = x then (k, Suc n) # kvs else (k, n) # bump x kvs)"

definition counter :: "'a list \<Rightarrow> ('a \<times> nat) list" where
  "counter xs = fold bump xs []"

text \<open>
  \<^verbatim>\<open>Series.value_counts()\<close>: missing values are not counted, the result goes from the
  largest count down, and values with the same count stay in the order in which they
  were first met (the sort is stable).
\<close>

definition value_counts :: "series \<Rightarrow> (cell \<times> nat) list" where
  "value_counts col = sort_key (\<lambda>kn. - int (snd kn)) (counter (dropna col))"

text \<open>
  \<^verbatim>\<open>.head(n)\<close>: the first \<open>n\<close> entries, and for a negative \<open>n\<close> all entries but the last
  \<open>-n\<close> (pandas takes the slice \<^verbatim>\<open>[:n]\<close>).
\<close>

definition head :: "int \<Rightarrow> 'a list \<Rightarrow> 'a list" where
  "head n xs = (if 0 \<le> n then take (nat n) xs else take (length xs - nat (- n)) xs)"

text \<open>
  Ordering values: strings by code points, numbers by size, timestamps by time. Values
  of different kinds do not compare (Python raises TypeError).
\<close>

fun cell_key :: "cell \<Rightarrow> int list" where
  "cell_key NA = []"
| "cell_key (Text s) = map of_char s"
| "cell_key (Number i) = [i]"
| "cell_key (Stamp t) = [year t, month t, day t, hour t, minute t, second t]"

fun kind :: "cell \<Rightarrow> nat" where
  "kind NA = 0"
| "kind (Text s) = 1"
| "kind (Number i) = 2"
| "kind (Stamp t) = 3"

fun comparable :: "cell list \<Rightarrow> bool" where
  "comparable [] = True"
| "comparable (c # cs) = list_all (\<lambda>x. kind x = kind c) cs"

text \<open>\<^verbatim>\<open>.sort_index()\<close> of a table of counts: ascending in the counted value.\<close>

definition sort_index :: "(cell \<times> nat) list \<Rightarrow> error + (cell \<times> nat) list" where
  "sort_index kvs =
     (if comparable (map fst kvs) then Inr (sort_key (\<lambda>kn. cell_key (fst kn)) kvs) else Inl TypeError)"

text \<open>\<^verbatim>\<open>Series.max()\<close>: the largest value that is not missing, missing when there is none.\<close>

definition series_max :: "series \<Rightarrow> error + cell" where
  "series_max col =
     (case dropna col of
        [] \<Rightarrow> Inr NA
      | v # vs \<Rightarrow>
          if comparable (v # vs)
          then Inr (fold (\<lambda>c m. if cell_key m < cell_key c then c else m) vs v)
          else Inl TypeError)"

text \<open>
  \<^verbatim>\<open>col == v\<close>, cell by cell (a missing value equals nothing, not even itself), and
  the rows of a column that a boolean mask selects.
\<close>

definition eq_mask :: "series \<Rightarrow> cell \<Rightarrow> bool list" where
  "eq_mask col v = map (\<lambda>c. c \<noteq> NA \<and> c = v) col"

definition select_rows :: "bool list \<Rightarrow> series \<Rightarrow> series" where
  "select_rows keep col = map fst (filter snd (zip col keep))"

subsection \<open>Numbers as numpy divides them\<close>

text \<open>
  \<^verbatim>\<open>Series.sum()\<close> gives a numpy integer, and numpy's true division is that of
  IEEE 754 floats: dividing by zero is no exception (numpy gives a warning, which
  \<^verbatim>\<open>warnings.filterwarnings('ignore')\<close> silences) but \<^verbatim>\<open>nan\<close> for 0/0 and an infinity
  otherwise. Rounding is not modelled: a finite float is the real number.
\<close>

datatype npfloat = Finite real | PosInf | NegInf | NaN

definition np_true_divide :: "int \<Rightarrow> int \<Rightarrow> npfloat" where
  "np_true_divide a b =
     (if b = 0 then (if a = 0 then NaN else if 0 < a then PosInf else NegInf)
      else Finite (real_of_int a / real_of_int b))"

fun np_multiply :: "npfloat \<Rightarrow> int \<Rightarrow> npfloat" where
  "np_multiply (Finite x) k = Finite (x * real_of_int k)"
| "np_multiply PosInf k = (if k = 0 then NaN else if 0 < k then PosInf else NegInf)"
| "np_multiply NegInf k = (if k = 0 then NaN else if 0 < k then NegInf else PosInf)"
| "np_multiply NaN k = NaN"

section \<open>The analyzer\<close>

text \<open>
  \<^verbatim>\<open>CORD19Analyzer\<close>. Data frames are objects: the attributes \<open>df\<close> and \<open>df_clean\<close> hold
  references into a heap of frames, so that an assignment to a column of one frame is
  seen through every reference to that frame and through no other. A new object gets
  the next free address. \<open>init\<close> is the constructor, in a heap \<open>h\<close> of objects that
  exist already. What the methods print is not modelled.
\<close>

record analyzer =
  heap :: "dataframe list"
  file_path :: string
  df :: "nat option"
  df_clean :: "nat option"

definition init :: "dataframe list \<Rightarrow> string \<Rightarrow> analyzer" where
  "init h path = \<lparr>heap = h, file_path = path, df = None, df_clean = None\<rparr>"

text \<open>Every reference the analyzer holds points to an object.\<close>

definition wf_analyzer :: "analyzer \<Rightarrow> bool" where
  "wf_analyzer s =
     ((case df s of None \<Rightarrow> True | Some r \<Rightarrow> r < length (heap s)) \<and>
      (case df_clean s of None \<Rightarrow> True | Some c \<Rightarrow> c < length (heap s)))"

text \<open>
  A method either returns a value or raises, and leaves a state behind in both cases.
\<close>

type_synonym 'a action = "analyzer \<Rightarrow> (error + 'a) \<times> analyzer"

definition andthen :: "'a action \<Rightarrow> ('a \<Rightarrow> 'b action) \<Rightarrow> 'b action" where
  "andthen m f s = (case m s of (Inl e, s') \<Rightarrow> (Inl e, s') | (Inr x, s') \<Rightarrow> f x s')"

definition ret :: "'a \<Rightarrow> 'a action" where
  "ret x s = (Inr x, s)"

definition lift :: "error + 'a \<Rightarrow> 'a action" where
  "lift r s = (r, s)"

text \<open>\<^verbatim>\<open>frame.copy()\<close>: a new object with the same content.\<close>

definition copy :: "nat \<Rightarrow> nat action" where
  "copy r s = (Inr (length (heap s)), s\<lparr>heap := heap s @ [heap s ! r]\<rparr>)"

definition set_df_clean :: "nat \<Rightarrow> unit action" where
  "set_df_clean c s = (Inr (), s\<lparr>df_clean := Some c\<rparr>)"

text \<open>\<^verbatim>\<open>frame[k]\<close> and \<^verbatim>\<open>frame[k] = col\<close> on the object at address \<open>r\<close>.\<close>

definition column :: "nat \<Rightarrow> string \<Rightarrow> series action" where
  "column r k s = (getitem (heap s ! r) k, s)"

definition assign :: "nat \<Rightarrow> string \<Rightarrow> series \<Rightarrow> unit action" where
  "assign r k col s = (Inr (), s\<lparr>heap := (heap s)[r := setitem (heap s ! r) k col]\<rparr>)"

subsection \<open>load_data\<close>

text \<open>
  \<^verbatim>\<open>pd.read_csv\<close> reads the file system: \<open>read_csv\<close> gives, for a path, the frame read
  or the exception raised (no file, no permission, an empty file, text that is not a
  table, bytes that are not text). \<^verbatim>\<open>except Exception\<close> catches each of them, and
  \<open>self.df\<close> is assigned only when the read has returned.
\<close>

definition load_data :: "(string \<Rightarrow> error + dataframe) \<Rightarrow> analyzer \<Rightarrow> bool \<times> analyzer" where
  "load_data read_csv s =
     (case read_csv (file_path s) of
        Inl e \<Rightarrow> (False, s)
      | Inr d \<Rightarrow> (True, s\<lparr>heap := heap s @ [d], df := Some (length (heap s))\<rparr>))"

subsection \<open>clean_data\<close>

text \<open>
  The result is \<open>None\<close> when no data is loaded (the method prints and returns), and the
  reference \<open>self.df_clean\<close> otherwise. \<open>self.df_clean\<close> is assigned first, to a copy
  of \<open>self.df\<close>, and the derived columns are then assigned to that object one after
  the other; an exception ends the method where it is raised.
\<close>

definition clean_data :: "(cell \<Rightarrow> timestamp option) \<Rightarrow> nat option action" where
  "clean_data P s =
     (case df s of
        None \<Rightarrow> (Inr None, s)
      | Some r \<Rightarrow>
         andthen (copy r) (\<lambda>c.
         andthen (set_df_clean c) (\<lambda>_.
         andthen (column c ''publish_time'') (\<lambda>pt.
         andthen (assign c ''publish_time'' (to_datetime P pt)) (\<lambda>_.
         andthen (column c ''publish_time'') (\<lambda>pt.
         andthen (lift (dt year pt)) (\<lambda>ys.
         andthen (assign c ''year'' ys) (\<lambda>_.
         andthen (column c ''publish_time'') (\<lambda>pt.
         andthen (lift (dt month pt)) (\<lambda>ms.
         andthen (assign c ''month'' ms) (\<lambda>_.
         andthen (column c ''abstract'') (\<lambda>ab.
         andthen (assign c ''abstract_word_count'' (map abstract_word_count ab)) (\<lambda>_.
         andthen (column c ''journal'') (\<lambda>j.
         andthen (lift (str_method lower j)) (\<lambda>jl.
         andthen (lift (str_method strip jl)) (\<lambda>jc.
         andthen (assign c ''journal_clean'' jc) (\<lambda>_.
         ret (Some c))))))))))))))))) s)"

subsection \<open>The analyses\<close>

text \<open>
  The analyses draw with matplotlib and wordcloud. What a drawing looks like is not
  modelled, but a drawing call may raise: \<open>draw\<close> gives, for each call, the exception
  it raises, or \<open>None\<close>. The figure itself is left out of the results, which are the
  tables returned beside it. No analysis assigns to the analyzer.
\<close>

datatype plot =
    Bar "(cell \<times> nat) list"
  | BarH "(cell \<times> nat) list"
  | WordCloud int "(string \<times> nat) list"

definition render :: "(plot \<Rightarrow> error option) \<Rightarrow> plot \<Rightarrow> unit action" where
  "render draw p s = (case draw p of None \<Rightarrow> (Inr (), s) | Some e \<Rightarrow> (Inl e, s))"

definition analyze_publications_over_time ::
  "(plot \<Rightarrow> error option) \<Rightarrow> (cell \<times> nat) list option action" where
  "analyze_publications_over_time draw s =
     (case df_clean s of
        None \<Rightarrow> (Inr None, s)
      | Some c \<Rightarrow>
         andthen (column c ''year'') (\<lambda>ycol.
         andthen (lift (sort_index (value_counts ycol))) (\<lambda>yearly_counts.
         andthen (render draw (Bar yearly_counts)) (\<lambda>_.
         andthen (column c ''year'') (\<lambda>ycol.
         andthen (lift (series_max ycol)) (\<lambda>latest_year.
         andthen (column c ''year'') (\<lambda>ycol.
         andthen (column c ''month'') (\<lambda>mcol.
         andthen (lift (sort_index (value_counts (select_rows (eq_mask ycol latest_year) mcol))))
           (\<lambda>monthly_latest.
         andthen (render draw (Bar monthly_latest)) (\<lambda>_.
         ret (Some yearly_counts)))))))))) s)"

definition analyze_journals ::
  "(plot \<Rightarrow> error option) \<Rightarrow> int \<Rightarrow> (cell \<times> nat) list option action" where
  "analyze_journals draw top_n s =
     (case df_clean s of
        None \<Rightarrow> (Inr None, s)
      | Some c \<Rightarrow>
         andthen (column c ''journal_clean'') (\<lambda>jcol.
         andthen (ret (head top_n (value_counts jcol))) (\<lambda>journal_counts.
         andthen (render draw (BarH journal_counts)) (\<lambda>_.
         ret (Some journal_counts)))) s)"

definition stop_words :: "string list" where
  "stop_words =
     [''the'', ''and'', ''of'', ''in'', ''to'', ''a'', ''for'', ''with'', ''on'',
      ''as'', ''by'', ''from'', ''that'', ''this'', ''is'', ''are'', ''was'', ''were'',
      ''be'', ''been'', ''have'', ''has'', ''had'', ''but'', ''not'', ''which'',
      ''their'', ''from'', ''can'', ''we'', ''our'', ''an'', ''will'', ''has'', ''study'']"

definition filter_words :: "(string \<times> nat) list \<Rightarrow> (string \<times> nat) list" where
  "filter_words word_freq = filter (\<lambda>wn. fst wn \<notin> set stop_words \<and> 10 < snd wn) word_freq"

definition create_word_cloud ::
  "(plot \<Rightarrow> error option) \<Rightarrow> string \<Rightarrow> int \<Rightarrow> (string \<times> nat) list option action" where
  "create_word_cloud draw text_column max_words s =
     (case df_clean s of
        None \<Rightarrow> (Inr None, s)
      | Some c \<Rightarrow>
         andthen (column c text_column) (\<lambda>tcol.
         andthen (ret (join (map py_str (dropna tcol)))) (\<lambda>all_text.
         andthen (ret (findall False (lower all_text))) (\<lambda>words.
         andthen (ret (counter words)) (\<lambda>word_freq.
         andthen (ret (filter_words word_freq)) (\<lambda>filtered_words.
         andthen (render draw (WordCloud max_words filtered_words)) (\<lambda>_.
         ret (Some filtered_words))))))) s)"

definition analyze_sources ::
  "(plot \<Rightarrow> error option) \<Rightarrow> (cell \<times> nat) list option action" where
  "analyze_sources draw s =
     (case df_clean s of
        None \<Rightarrow> (Inr None, s)
      | Some c \<Rightarrow>
         andthen (column c ''source_x'') (\<lambda>scol.
         andthen (ret (head 10 (value_counts scol))) (\<lambda>source_counts.
         andthen (render draw (Bar source_counts)) (\<lambda>_.
         ret (Some source_counts)))) s)"

text \<open>
  \<^verbatim>\<open>frame[names]\<close> is a new frame of the named columns in the order of the names, and
  \<^verbatim>\<open>frame.head(n)\<close> a new frame of its first rows.
\<close>

fun getitems :: "dataframe \<Rightarrow> string list \<Rightarrow> error + (string \<times> series) list" where
  "getitems d [] = Inr []"
| "getitems d (k # ks) =
     (case getitem d k of
        Inl e \<Rightarrow> Inl e
      | Inr col \<Rightarrow> (case getitems d ks of Inl e \<Rightarrow> Inl e | Inr cs \<Rightarrow> Inr ((k, col) # cs)))"

definition head_frame :: "int \<Rightarrow> dataframe \<Rightarrow> dataframe" where
  "head_frame n d =
     \<lparr>nrows = length (head n [0..<nrows d]),
      columns = map (\<lambda>kc. (fst kc, head n (snd kc))) (columns d)\<rparr>"

definition sample_columns :: "string list" where
  "sample_columns = [''title'', ''abstract'', ''journal'', ''year'', ''source_x'']"

definition get_sample_data :: "int \<Rightarrow> dataframe option action" where
  "get_sample_data n s =
     (case df_clean s of
        None \<Rightarrow> (Inr None, s)
      | Some c \<Rightarrow>
         andthen (ret (filter (\<lambda>col. col \<in> fst ` set (columns (heap s ! c))) sample_columns))
           (\<lambda>available_columns.
         andthen (lift (getitems (heap s ! c) available_columns)) (\<lambda>cs.
         ret (Some (head_frame n \<lparr>nrows = nrows (heap s ! c), columns = cs\<rparr>)))) s)"

subsection \<open>The completeness metrics of the application\<close>

text \<open>
  \<^verbatim>\<open>(analyzer.df_clean[col].notna().sum() / len(analyzer.df_clean)) * 100\<close> in \<open>main\<close>.
  Subscripting \<open>None\<close> is a TypeError.
\<close>

definition completeness :: "string \<Rightarrow> analyzer \<Rightarrow> error + npfloat" where
  "completeness col s =
     (case df_clean s of
        None \<Rightarrow> Inl TypeError
      | Some c \<Rightarrow>
         (case getitem (heap s ! c) col of
            Inl e \<Rightarrow> Inl e
          | Inr ser \<Rightarrow>
              Inr (np_multiply
                     (np_true_divide (int (length (filter id (notna ser))))
                                     (int (nrows (heap s ! c)))) 100)))"

subsection \<open>What clean_data needs, and what it builds\<close>

text \<open>
  \<open>clean_data\<close> reads the columns \<open>publish_time\<close>, \<open>abstract\<close> and \<open>journal\<close>, and calls
  string methods on the last: an input is valid when the three columns are there and
  \<open>journal\<close> is a column of strings.
\<close>

definition has_column :: "dataframe \<Rightarrow> string \<Rightarrow> bool" where
  "has_column d k = (k \<in> fst ` set (columns d))"

definition valid_input :: "dataframe \<Rightarrow> bool" where
  "valid_input d =
     (has_column d ''publish_time'' \<and> has_column d ''abstract'' \<and>
      (case getitem d ''journal'' of Inl e \<Rightarrow> False | Inr j \<Rightarrow> has_str j))"

text \<open>
  The content of the frame that \<open>clean_data\<close> leaves in \<open>self.df_clean\<close>, as a function
  of the content of the raw frame, with the exception that ended the method, if any.
  Lemma \<open>clean_data_cleaned\<close> shows that the method builds exactly this.
\<close>

definition cleaned :: "(cell \<Rightarrow> timestamp option) \<Rightarrow> dataframe \<Rightarrow> error option \<times> dataframe" where
  "cleaned P d =
     (case getitem d ''publish_time'' of
        Inl e \<Rightarrow> (Some e, d)
      | Inr pt \<Rightarrow>
          let ts = to_datetime P pt;
              d1 = setitem d ''publish_time'' ts;
              d2 = setitem d1 ''year'' (map (stamp_field year) ts);
              d3 = setitem d2 ''month'' (map (stamp_field month) ts)
          in (case getitem d3 ''abstract'' of
                Inl e \<Rightarrow> (Some e, d3)
              | Inr ab \<Rightarrow>
                  let d4 = setitem d3 ''abstract_word_count'' (map abstract_word_count ab)
                  in (case getitem d4 ''journal'' of
                        Inl e \<Rightarrow> (Some e, d4)
                      | Inr j \<Rightarrow>
                          if has_str j
                          then (None, setitem d4 ''journal_clean''
                                        (map (str_cell strip) (map (str_cell lower) j)))
                          else (Some AttributeError, d4))))"

section \<open>Worked examples\<close>

text \<open>
  A parser to run the examples with: it reads \<^verbatim>\<open>YYYY-MM-DD\<close> and nothing else. (pandas
  reads many more formats; the theorems hold for every parser.)
\<close>

definition digit_value :: "char \<Rightarrow> nat option" where
  "digit_value c = (let n = (of_char c :: nat) in if 48 \<le> n \<and> n \<le> 57 then Some (n - 48) else None)"

fun decimal_from :: "nat \<Rightarrow> string \<Rightarrow> nat option" where
  "decimal_from acc [] = Some acc"
| "decimal_from acc (c # cs) =
     (case digit_value c of None \<Rightarrow> None | Some v \<Rightarrow> decimal_from (10 * acc + v) cs)"

definition iso_fields :: "string \<Rightarrow> timestamp option" where
  "iso_fields s =
     (if length s = 10 \<and> s ! 4 = CHR ''-'' \<and> s ! 7 = CHR ''-''
      then (case decimal_from 0 (take 4 s) of
              None \<Rightarrow> None
            | Some y \<Rightarrow>
               (case decimal_from 0 (take 2 (drop 5 s)) of
                  None \<Rightarrow> None
                | Some m \<Rightarrow>
                   (case decimal_from 0 (drop 8 s) of
                      None \<Rightarrow> None
                    | Some a \<Rightarrow>
                        if 1 \<le> m \<and> m \<le> 12 \<and> 1 \<le> a \<and> a \<le> 31
                        then Some \<lparr>year = int y, month = int m, day = int a,
                                   hour = 0, minute = 0, second = 0\<rparr>
                        else None)))
      else None)"

fun iso_date :: "cell \<Rightarrow> timestamp option" where
  "iso_date (Text s) = iso_fields s"
| "iso_date c = None"

text \<open>A drawing library that never raises.\<close>

definition draws :: "plot \<Rightarrow> error option" where
  "draws p = None"

text \<open>
  The three rows of the end-to-end example of the specification, with a title, an
  abstract and a source each, and the analyzer that has loaded them.
\<close>

definition example_raw :: dataframe where
  "example_raw =
     \<lparr>nrows = 3,
      columns =
        [(''title'', [Text ''Viral load'', Text ''Masks'', NA]),
         (''abstract'', [Text ''We measure the  viral load'', NA, Text ''Short''] ),
         (''journal'', [Text ''Nature'', Text ''nature '', Text ''Lancet'']),
         (''publish_time'', [Text ''2020-03-05'', Text ''2020-03-09'', Text ''bad-date'']),
         (''source_x'', [Text ''PMC'', Text ''PMC'', Text ''WHO''])]\<rparr>"

definition example_loaded :: analyzer where
  "example_loaded = \<lparr>heap = [example_raw], file_path = ''data/metadata.csv'', df = Some 0, df_clean = None\<rparr>"

definition stamp :: "int \<Rightarrow> int \<Rightarrow> int \<Rightarrow> cell" where
  "stamp y m a = Stamp \<lparr>year = y, month = m, day = a, hour = 0, minute = 0, second = 0\<rparr>"

definition example_clean :: dataframe where
  "example_clean =
     \<lparr>nrows = 3,
      columns =
        [(''title'', [Text ''Viral load'', Text ''Masks'', NA]),
         (''abstract'', [Text ''We measure the  viral load'', NA, Text ''Short''] ),
         (''journal'', [Text ''Nature'', Text ''nature '', Text ''Lancet'']),
         (''publish_time'', [stamp 2020 3 5, stamp 2020 3 9, NA]),
         (''source_x'', [Text ''PMC'', Text ''PMC'', Text ''WHO'']),
         (''year'', [Number 2020, Number 2020, NA]),
         (''month'', [Number 3, Number 3, NA]),
         (''abstract_word_count'', [Number 5, Number 0, Number 1]),
         (''journal_clean'', [Text ''nature'', Text ''nature'', Text ''lancet''])]\<rparr>"

definition example_cleaned :: analyzer where
  "example_cleaned =
     \<lparr>heap = [example_raw, example_clean], file_path = ''data/metadata.csv'',
      df = Some 0, df_clean = Some 1\<rparr>"

text \<open>A file with a header and no rows, loaded.\<close>

definition empty_raw :: dataframe where
  "empty_raw =
     \<lparr>nrows = 0,
      columns = [(''title'', []), (''abstract'', []), (''journal'', []),
                 (''publish_time'', []), (''source_x'', [])]\<rparr>"

definition empty_loaded :: analyzer where
  "empty_loaded = \<lparr>heap = [empty_raw], file_path = ''data/metadata.csv'', df = Some 0, df_clean = None\<rparr>"

text \<open>A file without an \<open>abstract\<close> column, loaded.\<close>

definition no_abstract_raw :: dataframe where
  "no_abstract_raw =
     \<lparr>nrows = 1,
      columns = [(''title'', [Text ''Masks'']), (''journal'', [Text ''Lancet'']),
                 (''publish_time'', [Text ''2020-03-05'']), (''source_x'', [Text ''WHO''])]\<rparr>"

definition no_abstract_loaded :: analyzer where
  "no_abstract_loaded =
     \<lparr>heap = [no_abstract_raw], file_path = ''data/metadata.csv'', df = Some 0, df_clean = None\<rparr>"

text \<open>One row whose title holds two words eleven times each, loaded.\<close>

definition crowded_raw :: dataframe where
  "crowded_raw =
     \<lparr>nrows = 1,
      columns =
        [(''title'',
          [Text ''covid virus covid virus covid virus covid virus covid virus covid virus covid virus covid virus covid virus covid virus covid virus'']),
         (''abstract'', [NA]),
         (''journal'', [Text ''Lancet'']),
         (''publish_time'', [Text ''2020-03-05'']),
         (''source_x'', [Text ''WHO''])]\<rparr>"

definition crowded_loaded :: analyzer where
  "crowded_loaded =
     \<lparr>heap = [crowded_raw], file_path = ''data/metadata.csv'', df = Some 0, df_clean = None\<rparr>"

text \<open>A file system with one table and nothing else.\<close>

definition example_read_csv :: "string \<Rightarrow> error + dataframe" where
  "example_read_csv path = (if path = ''data/metadata.csv'' then Inr example_raw else Inl FileNotFoundError)"

section \<open>Basic facts\<close>

lemma lower_char_code:
  assumes "is_upper c"
  shows "(of_char (lower_char c) :: nat) = of_char c + 32"
proof (cases c)
  case (Char b0 b1 b2 b3 b4 b5 b6 b7)
  with assms show ?thesis
    by (cases b5; cases b6; cases b7; cases b0; cases b1; cases b2; cases b3; cases b4)
       (simp_all add: lower_char_def is_upper_def)
qed

lemma map_of_put_column: "map_of (put_column k col cs) = (map_of cs)(k \<mapsto> col)"
  by (induction cs) (auto simp: fun_eq_iff)

lemma getitem_setitem:
  "getitem (setitem d k col) k' = (if k' = k then Inr col else getitem d k')"
  by (simp add: getitem_def setitem_def map_of_put_column)

lemma nrows_setitem: "nrows (setitem d k col) = nrows d"
  by (simp add: setitem_def)

lemma wf_put_column:
  "list_all (\<lambda>kc. length (snd kc) = n) cs \<Longrightarrow> length col = n \<Longrightarrow>
   list_all (\<lambda>kc. length (snd kc) = n) (put_column k col cs)"
  by (induction cs) auto

lemma wf_frame_setitem: "wf_frame d \<Longrightarrow> length col = nrows d \<Longrightarrow> wf_frame (setitem d k col)"
  by (simp add: wf_frame_def setitem_def wf_put_column)

lemma getitem_length: "wf_frame d \<Longrightarrow> getitem d k = Inr col \<Longrightarrow> length col = nrows d"
  by (auto simp: wf_frame_def getitem_def list_all_iff split: option.splits dest!: map_of_SomeD)

lemma has_column_getitem: "has_column d k \<longleftrightarrow> (\<exists>col. getitem d k = Inr col)"
  unfolding has_column_def getitem_def using map_of_eq_None_iff [of "columns d" k]
  by (cases "map_of (columns d) k") auto

lemma coerce_fails: "fails_to_parse P c \<Longrightarrow> coerce_datetime P c = NA"
  by (cases c) auto

text \<open>
  An assignment to a column changes the object it is made to, and no other object.
\<close>

lemma assign_there:
  "r < length (heap s) \<Longrightarrow> heap (snd (assign r k col s)) ! r = setitem (heap s ! r) k col"
  by (simp add: assign_def)

lemma assign_elsewhere: "r' \<noteq> r \<Longrightarrow> heap (snd (assign r k col s)) ! r' = heap s ! r'"
  by (simp add: assign_def)

lemma is_datetime_coerce: "is_datetime (coerce_datetime P c)"
  by (cases c) (auto split: option.splits)

lemma length_to_datetime: "length (to_datetime P col) = length col"
  by (simp add: to_datetime_def)

lemma dt_to_datetime: "dt f (to_datetime P col) = Inr (map (stamp_field f) (to_datetime P col))"
  by (simp add: dt_def to_datetime_def list_all_iff is_datetime_coerce)

lemma is_text_str_cell: "is_text (str_cell f c) = is_text c"
  by (cases c) auto

lemma has_str_map: "has_str (map (str_cell f) col) = has_str col"
  by (simp add: has_str_def list_ex_iff is_text_str_cell)

section \<open>clean_data builds the cleaned frame in a new object\<close>

lemma clean_data_cleaned:
  assumes "df s = Some r"
  shows "clean_data P s =
          (case fst (cleaned P (heap s ! r)) of None \<Rightarrow> Inr (Some (length (heap s))) | Some e \<Rightarrow> Inl e,
           s\<lparr>heap := heap s @ [snd (cleaned P (heap s ! r))], df_clean := Some (length (heap s))\<rparr>)"
  using assms
  by (simp add: clean_data_def cleaned_def andthen_def copy_def set_df_clean_def column_def
      assign_def lift_def ret_def getitem_setitem dt_to_datetime str_method_def has_str_map Let_def
      split: sum.splits)

lemma nrows_cleaned: "nrows (snd (cleaned P d)) = nrows d"
  by (simp add: cleaned_def nrows_setitem Let_def split: sum.splits)

lemma wf_frame_cleaned:
  assumes "wf_frame d"
  shows "wf_frame (snd (cleaned P d))"
proof -
  have len: "\<And>k col. getitem d k = Inr col \<Longrightarrow> length col = nrows d"
    using assms by (rule getitem_length)
  show ?thesis
    using assms
    by (auto simp: cleaned_def Let_def getitem_setitem nrows_setitem length_to_datetime len
        intro!: wf_frame_setitem split: sum.splits)
qed

lemma cleaned_valid: "valid_input d \<Longrightarrow> fst (cleaned P d) = None"
  by (auto simp: valid_input_def has_column_getitem cleaned_def Let_def getitem_setitem
      split: sum.splits)

lemma wf_init: "wf_analyzer (init h path)"
  by (simp add: wf_analyzer_def init_def)

lemma wf_load_data: "wf_analyzer s \<Longrightarrow> wf_analyzer (snd (load_data read_csv s))"
  by (auto simp: wf_analyzer_def load_data_def split: sum.splits option.splits)

lemma wf_clean_data:
  assumes "wf_analyzer s"
  shows "wf_analyzer (snd (clean_data P s))"
proof (cases "df s")
  case None
  with assms show ?thesis by (simp add: clean_data_def)
next
  case (Some r)
  with assms show ?thesis
    by (simp add: clean_data_cleaned [OF Some] wf_analyzer_def)
qed

section \<open>The examples, evaluated\<close>

lemma example_valid: "wf_frame example_raw \<and> valid_input example_raw"
  by (simp add: wf_frame_def valid_input_def has_column_def getitem_def has_str_def example_raw_def)

lemma example_loaded_wf:
  "wf_analyzer example_loaded \<and> df example_loaded = Some 0 \<and> heap example_loaded ! 0 = example_raw"
  by (simp add: wf_analyzer_def example_loaded_def)

lemma example_loaded_eq:
  "load_data example_read_csv (init [] ''data/metadata.csv'') = (True, example_loaded)"
  by (simp add: load_data_def example_read_csv_def init_def example_loaded_def)

lemma example_cleaned_eq: "clean_data iso_date example_loaded = (Inr (Some 1), example_cleaned)"
  by (simp add: clean_data_cleaned example_loaded_def example_cleaned_def cleaned_def example_raw_def
      example_clean_def getitem_def setitem_def to_datetime_def iso_fields_def digit_value_def
      stamp_def abstract_word_count_def split_def is_space_def has_str_def lower_def lower_char_def
      is_upper_def strip_def)

lemma no_abstract_clean:
  "clean_data iso_date no_abstract_loaded =
     (Inl (KeyError ''abstract''),
      \<lparr>heap = [no_abstract_raw,
               \<lparr>nrows = 1,
                columns = [(''title'', [Text ''Masks'']), (''journal'', [Text ''Lancet'']),
                           (''publish_time'', [stamp 2020 3 5]), (''source_x'', [Text ''WHO'']),
                           (''year'', [Number 2020]), (''month'', [Number 3])]\<rparr>],
       file_path = ''data/metadata.csv'', df = Some 0, df_clean = Some 1\<rparr>)"
  by (simp add: clean_data_cleaned no_abstract_loaded_def cleaned_def no_abstract_raw_def
      getitem_def setitem_def to_datetime_def iso_fields_def digit_value_def stamp_def)

lemma empty_clean:
  "clean_data iso_date empty_loaded =
     (Inr (Some 1),
      \<lparr>heap = [empty_raw,
               \<lparr>nrows = 0,
                columns = [(''title'', []), (''abstract'', []), (''journal'', []),
                           (''publish_time'', []), (''source_x'', []), (''year'', []),
                           (''month'', []), (''abstract_word_count'', []),
                           (''journal_clean'', [])]\<rparr>],
       file_path = ''data/metadata.csv'', df = Some 0, df_clean = Some 1\<rparr>)"
  by (simp add: clean_data_cleaned empty_loaded_def cleaned_def empty_raw_def
      getitem_def setitem_def to_datetime_def has_str_def)

section \<open>Loading\<close>

text \<open>
  Claim C8. When \<^verbatim>\<open>pd.read_csv\<close> raises for the analyzer's path (the file is missing,
  unreadable or not a table), \<open>load_data\<close> returns \<open>False\<close>, raises nothing, and leaves
  the analyzer as it was: the raw dataset held before, if any, is still held, and no
  object has been added.
\<close>

theorem load_data_failure:
  assumes "read_csv (file_path s) = Inl e"
  shows "load_data read_csv s = (False, s)"
  using assms by (simp add: load_data_def)

theorem load_data_failure_witness:
  "example_read_csv (file_path (init [example_raw] ''missing.csv'')) = Inl FileNotFoundError \<and>
   load_data example_read_csv (init [example_raw] ''missing.csv'') = (False, init [example_raw] ''missing.csv'')"
proof -
  have h: "example_read_csv (file_path (init [example_raw] ''missing.csv'')) = Inl FileNotFoundError"
    by (simp add: example_read_csv_def init_def)
  from h load_data_failure [of example_read_csv "init [example_raw] ''missing.csv''" FileNotFoundError, OF h]
  show ?thesis by (rule conjI)
qed

section \<open>Cleaning\<close>

text \<open>
  Claim C5. For every loaded dataset, \<open>clean_data\<close> leaves in \<open>self.df_clean\<close> a frame
  with exactly as many rows as the raw frame, whatever the cells hold and even when
  the method ends with an exception; a well-formed raw frame gives a well-formed
  cleaned frame (every column has that many cells); and on a valid input the method
  returns that frame.
\<close>

theorem clean_data_row_count:
  assumes "df s = Some r"
  shows "\<exists>c. df_clean (snd (clean_data P s)) = Some c \<and>
             nrows (heap (snd (clean_data P s)) ! c) = nrows (heap s ! r) \<and>
             (wf_frame (heap s ! r) \<longrightarrow> wf_frame (heap (snd (clean_data P s)) ! c)) \<and>
             (valid_input (heap s ! r) \<longrightarrow> fst (clean_data P s) = Inr (Some c))"
  by (simp add: clean_data_cleaned [OF assms] nrows_cleaned wf_frame_cleaned cleaned_valid)

theorem clean_data_row_count_witness:
  "df example_loaded = Some 0 \<and> wf_frame (heap example_loaded ! 0) \<and>
   valid_input (heap example_loaded ! 0) \<and>
   (\<exists>c. df_clean (snd (clean_data iso_date example_loaded)) = Some c \<and>
        nrows (heap (snd (clean_data iso_date example_loaded)) ! c) = 3 \<and>
        wf_frame (heap (snd (clean_data iso_date example_loaded)) ! c) \<and>
        fst (clean_data iso_date example_loaded) = Inr (Some c))"
proof -
  have h: "df example_loaded = Some 0" by (simp add: example_loaded_wf)
  have raw: "heap example_loaded ! 0 = example_raw" by (simp add: example_loaded_wf)
  have n: "nrows example_raw = 3" by (simp add: example_raw_def)
  from clean_data_row_count [OF h, of iso_date] show ?thesis
    unfolding raw n using h example_valid by auto
qed

text \<open>
  Claim C9. \<open>clean_data\<close> does not modify the raw dataset: \<open>self.df\<close> refers to the
  same object after the call, that object has the same content (every column, every
  cell), and \<open>self.df_clean\<close> refers to another object.
\<close>

theorem clean_data_keeps_raw:
  assumes "wf_analyzer s" and "df s = Some r"
  shows "df (snd (clean_data P s)) = Some r \<and>
         heap (snd (clean_data P s)) ! r = heap s ! r \<and>
         (\<exists>c. df_clean (snd (clean_data P s)) = Some c \<and> c \<noteq> r)"
proof -
  from assms have "r < length (heap s)" by (simp add: wf_analyzer_def)
  then show ?thesis
    by (simp add: clean_data_cleaned [OF assms(2)] assms(2) nth_append)
qed

theorem clean_data_keeps_raw_witness:
  "wf_analyzer example_loaded \<and> df example_loaded = Some 0 \<and>
   df (snd (clean_data iso_date example_loaded)) = Some 0 \<and>
   heap (snd (clean_data iso_date example_loaded)) ! 0 = example_raw \<and>
   (\<exists>c. df_clean (snd (clean_data iso_date example_loaded)) = Some c \<and> c \<noteq> 0)"
proof -
  have w: "wf_analyzer example_loaded" and h: "df example_loaded = Some 0"
    and raw: "heap example_loaded ! 0 = example_raw"
    by (simp_all add: example_loaded_wf)
  from clean_data_keeps_raw [OF w h, of iso_date] show ?thesis
    unfolding raw using w h by simp
qed

text \<open>
  Claim C7. Cleaning the same raw dataset twice gives the same cleaned frame both
  times: after a second \<open>clean_data\<close>, the frame in \<open>self.df_clean\<close> has the content of
  the frame the first call left there, and the second call returns a frame if the
  first did and raises the same exception otherwise.
\<close>

theorem clean_data_idempotent:
  assumes "wf_analyzer s" and "df s = Some r"
  shows "\<exists>c1 c2. df_clean (snd (clean_data P s)) = Some c1 \<and>
           df_clean (snd (clean_data P (snd (clean_data P s)))) = Some c2 \<and>
           heap (snd (clean_data P (snd (clean_data P s)))) ! c2 = heap (snd (clean_data P s)) ! c1 \<and>
           (fst (clean_data P s) = Inr (Some c1) \<and>
              fst (clean_data P (snd (clean_data P s))) = Inr (Some c2) \<or>
            (\<exists>e. fst (clean_data P s) = Inl e \<and> fst (clean_data P (snd (clean_data P s))) = Inl e))"
proof -
  from assms have r: "r < length (heap s)" by (simp add: wf_analyzer_def)
  let ?s1 = "snd (clean_data P s)"
  have s1: "?s1 = s\<lparr>heap := heap s @ [snd (cleaned P (heap s ! r))], df_clean := Some (length (heap s))\<rparr>"
    by (simp add: clean_data_cleaned [OF assms(2)])
  have df1: "df ?s1 = Some r" by (simp add: s1 assms(2))
  have raw1: "heap ?s1 ! r = heap s ! r" using r by (simp add: s1 nth_append)
  show ?thesis
    unfolding clean_data_cleaned [OF df1] raw1
    by (cases "fst (cleaned P (heap s ! r))") (simp_all add: clean_data_cleaned [OF assms(2)] nth_append)
qed

theorem clean_data_idempotent_witness:
  "wf_analyzer example_loaded \<and> df example_loaded = Some 0 \<and>
   (\<exists>c1 c2. df_clean (snd (clean_data iso_date example_loaded)) = Some c1 \<and>
      df_clean (snd (clean_data iso_date (snd (clean_data iso_date example_loaded)))) = Some c2 \<and>
      heap (snd (clean_data iso_date (snd (clean_data iso_date example_loaded)))) ! c2 =
        heap (snd (clean_data iso_date example_loaded)) ! c1 \<and>
      (fst (clean_data iso_date example_loaded) = Inr (Some c1) \<and>
         fst (clean_data iso_date (snd (clean_data iso_date example_loaded))) = Inr (Some c2) \<or>
       (\<exists>e. fst (clean_data iso_date example_loaded) = Inl e \<and>
            fst (clean_data iso_date (snd (clean_data iso_date example_loaded))) = Inl e)))"
proof -
  have w: "wf_analyzer example_loaded" and h: "df example_loaded = Some 0"
    by (simp_all add: example_loaded_wf)
  from w h clean_data_idempotent [OF w h, of iso_date] show ?thesis by (intro conjI)
qed

text \<open>
  Claim C6. For every row whose \<open>publish_time\<close> fails to parse (the value is missing or
  the parser rejects it), the cleaned frame has the missing value in \<open>year\<close> and in
  \<open>month\<close>, not a number such as 1970, and \<open>clean_data\<close> raises nothing: on a valid
  input it returns the cleaned frame.
\<close>

theorem unparsed_dates_absent:
  assumes "df s = Some r" and "valid_input (heap s ! r)"
    and "getitem (heap s ! r) ''publish_time'' = Inr pt" and "i < length pt"
    and "fails_to_parse P (pt ! i)"
  shows "\<exists>c ys ms. fst (clean_data P s) = Inr (Some c) \<and>
           df_clean (snd (clean_data P s)) = Some c \<and>
           getitem (heap (snd (clean_data P s)) ! c) ''year'' = Inr ys \<and>
           getitem (heap (snd (clean_data P s)) ! c) ''month'' = Inr ms \<and>
           ys ! i = NA \<and> ms ! i = NA"
proof -
  let ?d = "heap s ! r"
  from assms(2) obtain ab j where ab: "getitem ?d ''abstract'' = Inr ab"
    and j: "getitem ?d ''journal'' = Inr j" and hs: "has_str j"
    by (auto simp: valid_input_def has_column_getitem split: sum.splits)
  have frame: "snd (cleaned P ?d) =
      setitem (setitem (setitem (setitem (setitem ?d ''publish_time'' (to_datetime P pt))
        ''year'' (map (stamp_field year) (to_datetime P pt)))
        ''month'' (map (stamp_field month) (to_datetime P pt)))
        ''abstract_word_count'' (map abstract_word_count ab))
        ''journal_clean'' (map (str_cell strip) (map (str_cell lower) j))"
    by (simp add: cleaned_def assms(3) ab j hs getitem_setitem Let_def)
  have ok: "fst (cleaned P ?d) = None" using assms(2) by (rule cleaned_valid)
  have na: "to_datetime P pt ! i = NA"
    using assms(4,5) by (simp add: to_datetime_def coerce_fails)
  show ?thesis
    using assms(4) na
    by (simp add: clean_data_cleaned [OF assms(1)] ok frame getitem_setitem length_to_datetime)
qed

lemma iso_bad: "fails_to_parse iso_date (Text ''bad-date'')"
  by (simp add: iso_fields_def)

theorem unparsed_dates_absent_witness:
  "df example_loaded = Some 0 \<and> valid_input (heap example_loaded ! 0) \<and>
   getitem (heap example_loaded ! 0) ''publish_time''
     = Inr [Text ''2020-03-05'', Text ''2020-03-09'', Text ''bad-date''] \<and>
   (2::nat) < length [Text ''2020-03-05'', Text ''2020-03-09'', Text ''bad-date''] \<and>
   fails_to_parse iso_date ([Text ''2020-03-05'', Text ''2020-03-09'', Text ''bad-date''] ! 2) \<and>
   (\<exists>c ys ms. fst (clean_data iso_date example_loaded) = Inr (Some c) \<and>
      df_clean (snd (clean_data iso_date example_loaded)) = Some c \<and>
      getitem (heap (snd (clean_data iso_date example_loaded)) ! c) ''year'' = Inr ys \<and>
      getitem (heap (snd (clean_data iso_date example_loaded)) ! c) ''month'' = Inr ms \<and>
      ys ! 2 = NA \<and> ms ! 2 = NA)"
proof -
  let ?pt = "[Text ''2020-03-05'', Text ''2020-03-09'', Text ''bad-date'']"
  have a: "df example_loaded = Some 0" by (simp add: example_loaded_wf)
  have b: "valid_input (heap example_loaded ! 0)" by (simp add: example_loaded_wf example_valid)
  have c: "getitem (heap example_loaded ! 0) ''publish_time'' = Inr ?pt"
    by (simp add: example_loaded_wf example_raw_def getitem_def)
  have d: "(2::nat) < length ?pt" by simp
  have e: "fails_to_parse iso_date (?pt ! 2)" using iso_bad by simp
  from a b c d e unparsed_dates_absent [OF a b c d e] show ?thesis by (intro conjI)
qed

section \<open>The analyses\<close>

subsection \<open>Journals\<close>

lemma analyze_journals_eq:
  assumes "df_clean s = Some c" and "getitem (heap s ! c) ''journal_clean'' = Inr jcol"
  shows "analyze_journals draw top_n s =
          (case draw (BarH (head top_n (value_counts jcol))) of
             None \<Rightarrow> Inr (Some (head top_n (value_counts jcol)))
           | Some e \<Rightarrow> Inl e, s)"
  using assms
  by (simp add: analyze_journals_def andthen_def column_def ret_def render_def split: option.splits)

text \<open>
  Claim C2, as the code has it. \<open>analyze_journals\<close> passes \<open>top_n\<close> to \<^verbatim>\<open>.head\<close>
  without a check. For \<open>top_n = 0\<close> the table of counts is empty; for a negative
  \<open>top_n\<close> it is the whole ranking without its last \<open>- top_n\<close> entries, so it is empty
  exactly when the ranking has at most \<open>- top_n\<close> journals. The method returns the
  table unless the drawing call raises.
\<close>

theorem analyze_journals_below_one:
  assumes "top_n < 1" and "df_clean s = Some c"
    and "getitem (heap s ! c) ''journal_clean'' = Inr jcol"
  shows "\<exists>t. t = (if top_n = 0 then []
                   else take (length (value_counts jcol) - nat (- top_n)) (value_counts jcol)) \<and>
             analyze_journals draw top_n s =
               (case draw (BarH t) of None \<Rightarrow> Inr (Some t) | Some e \<Rightarrow> Inl e, s) \<and>
             (t = [] \<longleftrightarrow> top_n = 0 \<or> length (value_counts jcol) \<le> nat (- top_n))"
proof -
  have h: "head top_n (value_counts jcol) =
        (if top_n = 0 then []
         else take (length (value_counts jcol) - nat (- top_n)) (value_counts jcol))"
    using assms(1) by (simp add: head_def)
  show ?thesis
    unfolding analyze_journals_eq [OF assms(2,3)] h by auto
qed

lemma example_journal_counts:
  "value_counts [Text ''nature'', Text ''nature'', Text ''lancet''] = [(Text ''nature'', 2), (Text ''lancet'', 1)]"
  by (simp add: value_counts_def counter_def dropna_def)

theorem analyze_journals_below_one_witness:
  "(- 1 :: int) < 1 \<and> df_clean example_cleaned = Some 1 \<and>
   getitem (heap example_cleaned ! 1) ''journal_clean''
     = Inr [Text ''nature'', Text ''nature'', Text ''lancet''] \<and>
   analyze_journals draws (- 1) example_cleaned = (Inr (Some [(Text ''nature'', 2)]), example_cleaned)"
proof -
  have a: "(- 1 :: int) < 1" by simp
  have b: "df_clean example_cleaned = Some 1" by (simp add: example_cleaned_def)
  have c: "getitem (heap example_cleaned ! 1) ''journal_clean''
     = Inr [Text ''nature'', Text ''nature'', Text ''lancet'']"
    by (simp add: example_cleaned_def example_clean_def getitem_def)
  from analyze_journals_below_one [OF a b c, of draws]
  have "analyze_journals draws (- 1) example_cleaned = (Inr (Some [(Text ''nature'', 2)]), example_cleaned)"
    by (simp add: example_journal_counts draws_def)
  with a b c show ?thesis by (intro conjI)
qed

text \<open>
  Claim C2 as stated fails: with the three rows of the example cleaned,
  \<open>analyze_journals\<close> with \<open>top_n = -1\<close> returns a table that is not empty.
\<close>

theorem analyze_journals_counterexample:
  "fst (clean_data iso_date example_loaded) = Inr (Some 1) \<and>
   fst (analyze_journals draws (- 1) (snd (clean_data iso_date example_loaded)))
     = Inr (Some [(Text ''nature'', 2)])"
  by (simp add: example_cleaned_eq analyze_journals_def andthen_def column_def ret_def render_def
      draws_def example_cleaned_def example_clean_def getitem_def example_journal_counts head_def)

text \<open>
  The end-to-end example of the specification: the two most frequent journals of the
  three rows.
\<close>

lemma example_top_journals:
  "analyze_journals draws 2 example_cleaned
     = (Inr (Some [(Text ''nature'', 2), (Text ''lancet'', 1)]), example_cleaned)"
  by (simp add: analyze_journals_def andthen_def column_def ret_def render_def draws_def
      example_cleaned_def example_clean_def getitem_def example_journal_counts head_def)

subsection \<open>Word cloud\<close>

text \<open>\<open>counter\<close> counts: every element once, with its number of occurrences.\<close>

lemma bump_keys: "fst ` set (bump x kvs) = insert x (fst ` set kvs)"
proof (induction kvs)
  case Nil
  show ?case by simp
next
  case (Cons kv kvs)
  obtain k n where kv: "kv = (k, n)" by (cases kv)
  show ?case
    using Cons by (cases "k = x") (simp_all add: kv insert_commute)
qed

lemma bump_distinct: "distinct (map fst kvs) \<Longrightarrow> distinct (map fst (bump x kvs))"
  by (induction kvs) (auto simp: bump_keys)

lemma bump_map_of:
  "map_of (bump x kvs) = (map_of kvs)(x \<mapsto> (case map_of kvs x of None \<Rightarrow> 1 | Some n \<Rightarrow> Suc n))"
  by (induction kvs) (auto simp: fun_eq_iff)

lemma fold_bump_keys: "fst ` set (fold bump xs acc) = set xs \<union> fst ` set acc"
  by (induction xs arbitrary: acc) (auto simp: bump_keys)

lemma fold_bump_distinct:
  "distinct (map fst acc) \<Longrightarrow> distinct (map fst (fold bump xs acc))"
  by (induction xs arbitrary: acc) (auto simp: bump_distinct)

lemma fold_bump_map_of:
  "map_of (fold bump xs acc) w =
     (if w \<in> set xs \<or> w \<in> fst ` set acc
      then Some (count_list xs w + (case map_of acc w of None \<Rightarrow> 0 | Some n \<Rightarrow> n))
      else None)"
proof (induction xs arbitrary: acc)
  case Nil
  show ?case
    by (cases "map_of acc w") (auto simp: map_of_eq_None_iff dest: map_of_SomeD intro: rev_image_eqI)
next
  case (Cons x xs)
  show ?case
    by (auto simp: Cons bump_keys bump_map_of split: option.splits)
qed

lemma counter_distinct: "distinct (map fst (counter xs))"
  by (simp add: counter_def fold_bump_distinct)

lemma counter_mem: "(w, n) \<in> set (counter xs) \<longleftrightarrow> w \<in> set xs \<and> n = count_list xs w"
proof -
  have "(w, n) \<in> set (counter xs) \<longleftrightarrow> map_of (counter xs) w = Some n"
    using counter_distinct [of xs] by simp
  then show ?thesis
    by (auto simp: counter_def fold_bump_map_of)
qed

lemma filter_words_mem:
  "(w, n) \<in> set (filter_words (counter xs)) \<longleftrightarrow>
     w \<in> set xs \<and> n = count_list xs w \<and> w \<notin> set stop_words \<and> 10 < n"
  by (auto simp: filter_words_def counter_mem)

lemma filter_words_distinct: "distinct (map fst (filter_words (counter xs)))"
  by (simp add: filter_words_def distinct_map_filter counter_distinct)

lemma create_word_cloud_eq:
  assumes "df_clean s = Some c" and "getitem (heap s ! c) text_column = Inr tcol"
  shows "create_word_cloud draw text_column max_words s =
          (case draw (WordCloud max_words
                        (filter_words (counter (findall False (lower (join (map py_str (dropna tcol)))))))) of
             None \<Rightarrow> Inr (Some (filter_words (counter (findall False (lower (join (map py_str (dropna tcol))))))))
           | Some e \<Rightarrow> Inl e, s)"
  using assms
  by (simp add: create_word_cloud_def andthen_def column_def ret_def render_def split: option.splits)

lemma create_word_cloud_returns:
  assumes "create_word_cloud draw text_column max_words s = (Inr (Some m), s')"
  shows "\<exists>c tcol. df_clean s = Some c \<and> getitem (heap s ! c) text_column = Inr tcol \<and> s' = s \<and>
           m = filter_words (counter (findall False (lower (join (map py_str (dropna tcol))))))"
proof (cases "df_clean s")
  case None
  with assms show ?thesis by (simp add: create_word_cloud_def)
next
  case (Some c)
  show ?thesis
  proof (cases "getitem (heap s ! c) text_column")
    case (Inl e)
    with Some assms show ?thesis
      by (simp add: create_word_cloud_def andthen_def column_def)
  next
    case (Inr tcol)
    with Some assms show ?thesis
      by (auto simp: create_word_cloud_eq [OF Some Inr] split: option.splits)
  qed
qed

lemma crowded_clean:
  "clean_data iso_date crowded_loaded =
     (Inr (Some 1),
      \<lparr>heap = [crowded_raw,
               \<lparr>nrows = 1,
                columns =
                  [(''title'', [Text ''covid virus covid virus covid virus covid virus covid virus covid virus covid virus covid virus covid virus covid virus covid virus'']),
                   (''abstract'', [NA]),
                   (''journal'', [Text ''Lancet'']),
                   (''publish_time'', [stamp 2020 3 5]),
                   (''source_x'', [Text ''WHO'']),
                   (''year'', [Number 2020]),
                   (''month'', [Number 3]),
                   (''abstract_word_count'', [Number 0]),
                   (''journal_clean'', [Text ''lancet''])]\<rparr>],
       file_path = ''data/metadata.csv'', df = Some 0, df_clean = Some 1\<rparr>)"
  by (simp add: clean_data_cleaned crowded_loaded_def cleaned_def crowded_raw_def
      getitem_def setitem_def to_datetime_def iso_fields_def digit_value_def stamp_def
      abstract_word_count_def has_str_def lower_def lower_char_def is_upper_def strip_def
      is_space_def)

lemma crowded_words:
  "filter_words (counter (findall False (lower (join (map py_str (dropna [Text ''covid virus covid virus covid virus covid virus covid virus covid virus covid virus covid virus covid virus covid virus covid virus'']))))))
     = [(''covid'', 11), (''virus'', 11)]"
  by code_simp

lemma crowded_state:
  "df_clean (snd (clean_data iso_date crowded_loaded)) = Some 1 \<and>
   getitem (heap (snd (clean_data iso_date crowded_loaded)) ! 1) ''title'' = Inr [Text ''covid virus covid virus covid virus covid virus covid virus covid virus covid virus covid virus covid virus covid virus covid virus'']"
  by (simp add: crowded_clean getitem_def)

lemma crowded_cloud:
  "create_word_cloud draws ''title'' max_words (snd (clean_data iso_date crowded_loaded))
     = (Inr (Some [(''covid'', 11), (''virus'', 11)]), snd (clean_data iso_date crowded_loaded))"
proof -
  note a = crowded_state [THEN conjunct1] and b = crowded_state [THEN conjunct2]
  show ?thesis
    unfolding create_word_cloud_eq [OF a b] crowded_words by (simp add: draws_def)
qed

text \<open>
  Claim C3, as the code has it. \<open>max_words\<close> goes to the WordCloud drawing and nowhere
  else: the mapping returned holds every word of the column that is not a stop word
  and occurs more than 10 times, each once and with its number of occurrences,
  whatever \<open>max_words\<close> is. It has at most \<open>max_words\<close> entries only when there are at
  most that many such words.
\<close>

theorem create_word_cloud_all_words:
  assumes "df_clean s = Some c" and "getitem (heap s ! c) text_column = Inr tcol"
    and "create_word_cloud draw text_column max_words s = (Inr (Some m), s')"
  shows "s' = s \<and> distinct (map fst m) \<and>
         (\<forall>w n. (w, n) \<in> set m \<longleftrightarrow>
            w \<in> set (findall False (lower (join (map py_str (dropna tcol))))) \<and>
            n = count_list (findall False (lower (join (map py_str (dropna tcol))))) w \<and>
            w \<notin> set stop_words \<and> 10 < n)"
proof -
  from create_word_cloud_returns [OF assms(3)] assms(1,2)
  have "s' = s" and "m = filter_words (counter (findall False (lower (join (map py_str (dropna tcol))))))"
    by auto
  then show ?thesis
    by (simp add: filter_words_mem filter_words_distinct)
qed

theorem create_word_cloud_all_words_witness:
  "df_clean (snd (clean_data iso_date crowded_loaded)) = Some 1 \<and>
   getitem (heap (snd (clean_data iso_date crowded_loaded)) ! 1) ''title'' = Inr [Text ''covid virus covid virus covid virus covid virus covid virus covid virus covid virus covid virus covid virus covid virus covid virus''] \<and>
   create_word_cloud draws ''title'' 1 (snd (clean_data iso_date crowded_loaded))
     = (Inr (Some [(''covid'', 11), (''virus'', 11)]), snd (clean_data iso_date crowded_loaded)) \<and>
   distinct (map fst [(''covid'', 11 :: nat), (''virus'', 11)]) \<and>
   (\<forall>w n. (w, n) \<in> set [(''covid'', 11), (''virus'', 11)] \<longleftrightarrow>
      w \<in> set (findall False (lower (join (map py_str (dropna [Text ''covid virus covid virus covid virus covid virus covid virus covid virus covid virus covid virus covid virus covid virus covid virus'']))))) \<and>
      n = count_list (findall False (lower (join (map py_str (dropna [Text ''covid virus covid virus covid virus covid virus covid virus covid virus covid virus covid virus covid virus covid virus covid virus'']))))) w \<and>
      w \<notin> set stop_words \<and> 10 < n)"
proof -
  note a = crowded_state [THEN conjunct1] and b = crowded_state [THEN conjunct2]
  note c = crowded_cloud [of 1]
  from create_word_cloud_all_words [OF a b c] a b c show ?thesis by (intro conjI) simp_all
qed

text \<open>
  Claim C3 as stated fails: with \<open>max_words = 1\<close> and a title in which two words
  occur eleven times each, the mapping returned has two entries.
\<close>

theorem create_word_cloud_counterexample:
  "fst (clean_data iso_date crowded_loaded) = Inr (Some 1) \<and>
   fst (create_word_cloud draws ''title'' 1 (snd (clean_data iso_date crowded_loaded)))
     = Inr (Some [(''covid'', 11), (''virus'', 11)]) \<and>
   \<not> int (length [(''covid'', 11 :: nat), (''virus'', 11)]) \<le> 1"
  unfolding crowded_cloud by (simp add: crowded_clean)

text \<open>
  Claim C4. Whatever the dataset and the column, a mapping returned by
  \<open>create_word_cloud\<close> holds no stop word, and every word in it has a count above 10,
  which is the number of its occurrences in the column.
\<close>

theorem create_word_cloud_filtered:
  assumes "create_word_cloud draw text_column max_words s = (Inr (Some m), s')"
  shows "\<exists>c tcol. df_clean s = Some c \<and> getitem (heap s ! c) text_column = Inr tcol \<and>
           (\<forall>(w, n) \<in> set m. w \<notin> set stop_words \<and> 10 < n \<and>
              n = count_list (findall False (lower (join (map py_str (dropna tcol))))) w)"
proof -
  from create_word_cloud_returns [OF assms] obtain c tcol where
    "df_clean s = Some c" "getitem (heap s ! c) text_column = Inr tcol"
    "m = filter_words (counter (findall False (lower (join (map py_str (dropna tcol))))))"
    by blast
  then show ?thesis
    by (auto simp: filter_words_mem)
qed

theorem create_word_cloud_filtered_witness:
  "create_word_cloud draws ''title'' 100 (snd (clean_data iso_date crowded_loaded))
     = (Inr (Some [(''covid'', 11), (''virus'', 11)]), snd (clean_data iso_date crowded_loaded)) \<and>
   (\<exists>c tcol. df_clean (snd (clean_data iso_date crowded_loaded)) = Some c \<and>
      getitem (heap (snd (clean_data iso_date crowded_loaded)) ! c) ''title'' = Inr tcol \<and>
      (\<forall>(w, n) \<in> set [(''covid'', 11), (''virus'', 11)]. w \<notin> set stop_words \<and> 10 < n \<and>
         n = count_list (findall False (lower (join (map py_str (dropna tcol))))) w))"
proof -
  note c = crowded_cloud [of 100]
  from c create_word_cloud_filtered [OF c] show ?thesis by (rule conjI)
qed

subsection \<open>Before cleaning\<close>

text \<open>
  Claim C10, as the code has it. The analyses test \<open>self.df_clean is None\<close>: while the
  analyzer holds no cleaned frame, each of the five (publications over time, journals,
  word cloud, sources, sample) returns \<open>None\<close> and leaves the analyzer as it is.
\<close>

theorem not_ready:
  assumes "df_clean s = None"
  shows "analyze_publications_over_time draw s = (Inr None, s) \<and>
         analyze_journals draw top_n s = (Inr None, s) \<and>
         create_word_cloud draw text_column max_words s = (Inr None, s) \<and>
         analyze_sources draw s = (Inr None, s) \<and>
         get_sample_data n s = (Inr None, s)"
  using assms
  by (simp add: analyze_publications_over_time_def analyze_journals_def create_word_cloud_def
      analyze_sources_def get_sample_data_def)

theorem not_ready_witness:
  "df_clean example_loaded = None \<and>
   analyze_publications_over_time draws example_loaded = (Inr None, example_loaded) \<and>
   analyze_journals draws 10 example_loaded = (Inr None, example_loaded) \<and>
   create_word_cloud draws ''title'' 100 example_loaded = (Inr None, example_loaded) \<and>
   analyze_sources draws example_loaded = (Inr None, example_loaded) \<and>
   get_sample_data 5 example_loaded = (Inr None, example_loaded)"
proof -
  have h: "df_clean example_loaded = None" by (simp add: example_loaded_def)
  from h not_ready [OF h, of draws 10 "''title''" 100 5] show ?thesis by (rule conjI)
qed

text \<open>
  Claim C10 as stated fails after a cleaning that did not succeed: \<open>clean_data\<close>
  assigns \<open>self.df_clean\<close> before it derives the columns, so when it raises (here a
  KeyError, the file has no \<open>abstract\<close> column) the analyzer holds a partly cleaned
  frame, and \<open>analyze_publications_over_time\<close> returns counts instead of \<open>None\<close>.
\<close>

theorem not_ready_counterexample:
  "fst (clean_data iso_date no_abstract_loaded) = Inl (KeyError ''abstract'') \<and>
   fst (analyze_publications_over_time draws (snd (clean_data iso_date no_abstract_loaded)))
     = Inr (Some [(Number 2020, 1)])"
  by (simp add: no_abstract_clean analyze_publications_over_time_def andthen_def column_def
      getitem_def lift_def ret_def render_def draws_def sort_index_def value_counts_def
      counter_def dropna_def series_max_def eq_mask_def select_rows_def)

section \<open>The completeness metrics\<close>

text \<open>
  Claim C1. For a cleaned dataset without rows, the completeness of a column is a
  value, numpy's \<^verbatim>\<open>nan\<close> (0/0), and not an exception: no ZeroDivisionError is raised.
\<close>

theorem completeness_empty:
  assumes "df_clean s = Some c" and "nrows (heap s ! c) = 0" and "wf_frame (heap s ! c)"
    and "has_column (heap s ! c) col"
  shows "completeness col s = Inr NaN"
proof -
  from assms(4) obtain ser where ser: "getitem (heap s ! c) col = Inr ser"
    by (auto simp: has_column_getitem)
  with assms(2,3) have "ser = []" by (auto dest: getitem_length)
  with ser assms(1,2) show ?thesis
    by (simp add: completeness_def notna_def np_true_divide_def)
qed

theorem completeness_empty_witness:
  "df_clean (snd (clean_data iso_date empty_loaded)) = Some 1 \<and>
   nrows (heap (snd (clean_data iso_date empty_loaded)) ! 1) = 0 \<and>
   wf_frame (heap (snd (clean_data iso_date empty_loaded)) ! 1) \<and>
   has_column (heap (snd (clean_data iso_date empty_loaded)) ! 1) ''title'' \<and>
   completeness ''title'' (snd (clean_data iso_date empty_loaded)) = Inr NaN"
proof -
  let ?s = "snd (clean_data iso_date empty_loaded)"
  have a: "df_clean ?s = Some 1" by (simp add: empty_clean)
  have b: "nrows (heap ?s ! 1) = 0" by (simp add: empty_clean)
  have c: "wf_frame (heap ?s ! 1)" by (simp add: empty_clean wf_frame_def)
  have d: "has_column (heap ?s ! 1) ''title''" by (simp add: empty_clean has_column_def)
  from a b c d completeness_empty [OF a b c d] show ?thesis by (intro conjI)
qed

end
